theory Spec2Isabelle
  imports Complex_Main "HOL-Library.Sublist" "HOL-Library.AList"
begin

section \<open>Configuration constants of main.py\<close>

definition WINDOW_SIZE :: int where
  "WINDOW_SIZE = 60"

definition ZSCORE_THRESHOLD :: real where
  "ZSCORE_THRESHOLD = 3"

definition MIN_DATA_POINTS :: nat where
  "MIN_DATA_POINTS = 30"

definition RATE_LIMIT_WINDOW :: int where
  "RATE_LIMIT_WINDOW = 60"

definition RATE_LIMIT_MAX_REQUESTS :: int where
  "RATE_LIMIT_MAX_REQUESTS = 1000"

section \<open>Limits of the platform\<close>

text \<open>
  The largest signed 64-bit integer, in which the Redis server counts seconds and
  milliseconds, and the least magnitude at which a binary64 result rounds to infinity,
  where Python's float power raises OverflowError.
\<close>

definition LLONG_MAX :: int where
  "LLONG_MAX = 2 ^ 63 - 1"

definition POW_OVERFLOW :: real where
  "POW_OVERFLOW = 2 ^ 1024 - 2 ^ 970"

section \<open>The external collaborators\<close>

text \<open>
  main.py talks to a Redis server (string keys with expiry, and time series), to a
  threat-intelligence HTTP service and to the Cloudflare firewall API. None of them is
  code of the repository, so they are modelled here as an explicit world that every
  operation takes and returns.

  \<^item> Exceptions are values. \<open>ConnectionError\<close> is what redis-py raises when the server
    cannot be reached, \<open>ResponseError\<close> is an error reply of the server,
    \<open>ValueError\<close> is Python's \<open>int\<close> on a string that is no numeral,
    \<open>OverflowError\<close> is Python's float power on a result out of range.
  \<^item> A string value is \<open>RInt n\<close> when it is the decimal numeral of \<open>n\<close> (what INCR
    reads and writes) and \<open>RStr s\<close> otherwise. A string that is not that numeral but
    that Python's \<open>int\<close> would still read as a number (a numeral padded with blanks,
    say) has no representation; the program writes none.
  \<^item> A string key holds a value and an optional expiry instant in milliseconds; an entry
    whose instant has been reached is dead and is treated as absent.
  \<^item> A time series is a list of (timestamp in ms, value) samples in ascending timestamp
    order, at most one per timestamp.
  \<^item> Python floats are read as the real numbers they stand for and their arithmetic as
    exact, except that a square out of the binary64 range raises as it does in Python.
    Rounding, infinities and NaN are not modelled: the mean and the deviation below are
    the exact ones, of which the program computes the roundings, and nothing below says
    which side of the threshold a z-score falls on when it sits within a rounding error
    of it.
  \<^item> The clock is a parameter \<open>now\<close> (milliseconds since the epoch), read once per
    operation; the server's clock and \<open>time.time()\<close> are the same clock.
  \<^item> Every request to the two HTTP services is appended to \<open>calls\<close>; what they answer
    is given by an environment that may depend on the requests made so far.
  \<^item> Each operation is a function from the world before it to the world after it, so
    it runs on its own. The exception is the rate limiter, whose two round trips to the
    store are also given as separate steps that the steps of another request may come
    between.
  String keys and series keys are held in two tables: the string keys the program writes
  start with \<open>ratelimit:\<close>, \<open>verified:\<close>, \<open>blocked:\<close>, \<open>challenged:\<close> or
  \<open>monitored:\<close>, its series keys with \<open>ddos:\<close>.
\<close>

datatype error = ConnectionError | ResponseError | ValueError | OverflowError

datatype rval = RStr string | RInt int

type_synonym sample = "int \<times> real"

datatype ext_call = ThreatIntelQuery string | CloudflareBlock string | CloudflareChallenge string

record world =
  reachable :: bool
  kv :: "string \<rightharpoonup> rval \<times> int option"
  series :: "(string \<times> sample list) list"
  calls :: "ext_call list"

record ThreatIntelResult =
  ti_ip :: string
  risk_score :: real
  categories :: "string list"
  is_proxy :: bool
  is_tor :: bool
  is_vpn :: bool
  country_code :: string
  asn :: int
  asn_name :: string

text \<open>
  The field \<open>ip\<close> of ThreatIntelResult is \<open>ti_ip\<close> here.
  The answers of the HTTP services. \<open>threat_intel\<close> is \<open>None\<close> for a timeout, a
  transport error or a status other than 200; \<open>cf_block\<close> and \<open>cf_challenge\<close> are
  \<open>True\<close> exactly for a reply with status 200 or 201.
\<close>

record env =
  threat_intel :: "ext_call list \<Rightarrow> string \<Rightarrow> ThreatIntelResult option"
  cf_block :: "ext_call list \<Rightarrow> string \<Rightarrow> bool"
  cf_challenge :: "ext_call list \<Rightarrow> string \<Rightarrow> bool"

subsection \<open>String keys: GET, SET with EX, INCR, EXPIRE\<close>

definition live :: "int \<Rightarrow> rval \<times> int option \<Rightarrow> bool" where
  "live now e = (case snd e of None \<Rightarrow> True | Some t \<Rightarrow> now < t)"

definition kv_lookup :: "int \<Rightarrow> world \<Rightarrow> string \<Rightarrow> rval option" where
  "kv_lookup now w key =
     (case kv w key of
        None \<Rightarrow> None
      | Some e \<Rightarrow> if live now e then Some (fst e) else None)"

definition kv_get :: "int \<Rightarrow> world \<Rightarrow> string \<Rightarrow> error + rval option" where
  "kv_get now w key =
     (if \<not> reachable w then Inl ConnectionError else Inr (kv_lookup now w key))"

text \<open>
  \<open>SET key value EX seconds\<close>. The server answers \<open>seconds\<close> that are not positive,
  or that exceed \<open>LLONG_MAX / 1000\<close> so that their milliseconds would overflow, with
  \<open>ERR invalid expire time in 'set' command\<close>, which redis-py raises as ResponseError.
  It refuses in the same way an expiry instant, the clock plus these milliseconds, that
  passes \<open>LLONG_MAX\<close>. With the expiries main.py fixes itself, 60 and 3600 seconds,
  that takes a clock within an hour of the end of the 64-bit range and is left out here;
  where the expiry comes from a request, it is a condition of the property.
\<close>

definition kv_set :: "int \<Rightarrow> world \<Rightarrow> string \<Rightarrow> rval \<Rightarrow> int \<Rightarrow> error + world" where
  "kv_set now w key v ex =
     (if \<not> reachable w then Inl ConnectionError
      else if ex \<le> 0 \<or> ex > LLONG_MAX div 1000 then Inl ResponseError
      else Inr (w\<lparr>kv := (kv w)(key \<mapsto> (v, Some (now + ex * 1000)))\<rparr>))"

text \<open>
  The body of INCR on a reachable server: a missing or dead key counts from 0 and gets no
  expiry, a numeral is increased and keeps its expiry, anything else is an error reply.
\<close>

definition incr_cmd :: "int \<Rightarrow> world \<Rightarrow> string \<Rightarrow> error + world" where
  "incr_cmd now w key =
     (case kv_lookup now w key of
        None \<Rightarrow> Inr (w\<lparr>kv := (kv w)(key \<mapsto> (RInt 1, None))\<rparr>)
      | Some (RInt n) \<Rightarrow>
          Inr (w\<lparr>kv := (kv w)(key \<mapsto> (RInt (n + 1), snd (the (kv w key))))\<rparr>)
      | Some (RStr s) \<Rightarrow> Inl ResponseError)"

text \<open>
  The body of EXPIRE: a live key gets the expiry \<open>now + seconds\<close> (and is deleted when
  \<open>seconds\<close> is not positive); a missing key is left alone.
\<close>

definition expire_cmd :: "int \<Rightarrow> world \<Rightarrow> string \<Rightarrow> int \<Rightarrow> world" where
  "expire_cmd now w key seconds =
     (case kv_lookup now w key of
        None \<Rightarrow> w
      | Some v \<Rightarrow>
          if seconds \<le> 0 then w\<lparr>kv := (kv w)(key := None)\<rparr>
          else w\<lparr>kv := (kv w)(key \<mapsto> (v, Some (now + seconds * 1000)))\<rparr>)"

text \<open>
  \<open>pipe.incr(key); pipe.expire(key, seconds); pipe.execute()\<close>: both commands are sent
  in one MULTI/EXEC block. The block runs every command even when an earlier one replied
  with an error, and \<open>execute\<close> then raises the first error.
\<close>

definition pipeline_incr_expire ::
  "int \<Rightarrow> world \<Rightarrow> string \<Rightarrow> int \<Rightarrow> (error + unit) \<times> world" where
  "pipeline_incr_expire now w key seconds =
     (if \<not> reachable w then (Inl ConnectionError, w)
      else case incr_cmd now w key of
             Inl e \<Rightarrow> (Inl e, expire_cmd now w key seconds)
           | Inr w1 \<Rightarrow> (Inr (), expire_cmd now w1 key seconds))"

subsection \<open>Time series: TS.RANGE and TS.ADD\<close>

definition ts_lookup :: "world \<Rightarrow> string \<Rightarrow> sample list option" where
  "ts_lookup w key = map_of (series w) key"

definition in_range :: "int \<Rightarrow> int \<Rightarrow> sample \<Rightarrow> bool" where
  "in_range from_time to_time p = (from_time \<le> fst p \<and> fst p \<le> to_time)"

text \<open>
  \<open>TS.RANGE key from to\<close>: the samples with \<open>from \<le> timestamp \<le> to\<close> in ascending
  order; an error reply (\<open>TSDB: the key does not exist\<close>) for a key that was never
  created.
\<close>

definition ts_range :: "world \<Rightarrow> string \<Rightarrow> int \<Rightarrow> int \<Rightarrow> error + sample list" where
  "ts_range w key from_time to_time =
     (if \<not> reachable w then Inl ConnectionError
      else case ts_lookup w key of
             None \<Rightarrow> Inl ResponseError
           | Some s \<Rightarrow> Inr (filter (in_range from_time to_time) s))"

text \<open>The samples of a series, none for a key that was never created.\<close>

definition samples_of :: "world \<Rightarrow> string \<Rightarrow> sample list" where
  "samples_of w key = (case ts_lookup w key of None \<Rightarrow> [] | Some s \<Rightarrow> s)"

text \<open>The series of \<open>key\<close> holds a sample at the timestamp \<open>t\<close>.\<close>

definition holds_sample :: "world \<Rightarrow> string \<Rightarrow> int \<Rightarrow> bool" where
  "holds_sample w key t = (t \<in> set (map fst (samples_of w key)))"

text \<open>A sample is stored at its place in timestamp order.\<close>

fun ts_insert :: "sample \<Rightarrow> sample list \<Rightarrow> sample list" where
  "ts_insert p [] = [p]"
| "ts_insert p (q # s) = (if fst p < fst q then p # q # s else q # ts_insert p s)"

text \<open>
  \<open>TS.ADD key timestamp value\<close>, with no ON_DUPLICATE argument, as lines 254 and 255
  call it. It creates the series when the key is new. A series refuses a second sample
  at a timestamp it holds unless a duplicate policy says otherwise, and main.py gives
  none to the \<open>:avg\<close> and \<open>:std\<close> series, neither when it creates them (lines 124
  and 125) nor when it writes them: the server's default, BLOCK, answers with an error
  (\<open>TSDB: Error at upsert, update is not supported when DUPLICATE_POLICY is set to BLOCK
  mode\<close>), which redis-py raises as ResponseError. The server also refuses a sample that
  is older than the newest one by more than the retention of the series; with the one
  clock of this model that takes a clock set back by a day and is not modelled.
\<close>

definition ts_add :: "world \<Rightarrow> string \<Rightarrow> int \<Rightarrow> real \<Rightarrow> error + world" where
  "ts_add w key t v =
     (if \<not> reachable w then Inl ConnectionError
      else if holds_sample w key t then Inl ResponseError
      else Inr (w\<lparr>series := AList.update key (ts_insert (t, v) (samples_of w key)) (series w)\<rparr>))"

section \<open>detect_anomalies\<close>

record AnomalyDetectionResult =
  timestamp :: real
  metric :: string
  val :: real
  zscore :: real
  is_anomaly :: bool
  threshold :: real

text \<open>
  Lines 217 to 264. The window is \<open>[now - WINDOW_SIZE * 1000, now]\<close>. Only
  ResponseError is caught around the range query; any other error leaves the function:
  a connection error, the OverflowError of \<open>(x - avg) ** 2\<close>, which is raised while
  the squares are summed and before anything is written, and the error reply to either
  of the two writes, which stand outside the \<open>try\<close>. \<open>x ** 0.5\<close> of the
  non-negative variance is the square root. The field \<open>value\<close> of the source is
  \<open>val\<close> here.
\<close>

definition detect_anomalies ::
  "int \<Rightarrow> world \<Rightarrow> string \<Rightarrow> (error + AnomalyDetectionResult option) \<times> world" where
  "detect_anomalies now w m =
     (let current_time = now;
          start_time = current_time - WINDOW_SIZE * 1000
      in case ts_range w m start_time current_time of
           Inl ResponseError \<Rightarrow> (Inr None, w)
         | Inl e \<Rightarrow> (Inl e, w)
         | Inr data \<Rightarrow>
             if data = [] \<or> length data < MIN_DATA_POINTS then (Inr None, w)
             else
               (let current_value = snd (last data);
                   values = map snd data;
                   avg = sum_list values / real (length values)
               in if list_ex (\<lambda>x. POW_OVERFLOW \<le> (x - avg)\<^sup>2) values
                  then (Inl OverflowError, w)
                  else
                    (let std_dev = sqrt (sum_list (map (\<lambda>x. (x - avg)\<^sup>2) values)
                                         / real (length values));
                         zs = (if std_dev = 0 then 0 else (current_value - avg) / std_dev);
                         anomalous = (abs zs > ZSCORE_THRESHOLD)
                     in case ts_add w (m @ '':avg'') current_time avg of
                          Inl e \<Rightarrow> (Inl e, w)
                        | Inr w1 \<Rightarrow>
                            (case ts_add w1 (m @ '':std'') current_time std_dev of
                               Inl e \<Rightarrow> (Inl e, w1)
                             | Inr w2 \<Rightarrow>
                                 (Inr (Some \<lparr>timestamp = real_of_int current_time / 1000,
                                             metric = m,
                                             val = current_value,
                                             zscore = zs,
                                             is_anomaly = anomalous,
                                             threshold = ZSCORE_THRESHOLD\<rparr>), w2)))))"

section \<open>check_rate_limit\<close>

text \<open>\<open>int(count) if count else 0\<close> on the reply of GET.\<close>

definition int_or_zero :: "rval option \<Rightarrow> error + int" where
  "int_or_zero c =
     (case c of
        None \<Rightarrow> Inr 0
      | Some (RInt n) \<Rightarrow> Inr n
      | Some (RStr s) \<Rightarrow> if s = [] then Inr 0 else Inl ValueError)"

definition ratelimit_key :: "string \<Rightarrow> string" where
  "ratelimit_key ip = ''ratelimit:'' @ ip"

text \<open>Lines 268 to 286.\<close>

definition check_rate_limit :: "int \<Rightarrow> world \<Rightarrow> string \<Rightarrow> (error + bool \<times> int) \<times> world" where
  "check_rate_limit now w ip =
     (let key = ratelimit_key ip
      in case kv_get now w key of
           Inl e \<Rightarrow> (Inl e, w)
         | Inr c \<Rightarrow>
             (case int_or_zero c of
                Inl e \<Rightarrow> (Inl e, w)
              | Inr count \<Rightarrow>
                  if count \<ge> RATE_LIMIT_MAX_REQUESTS then (Inr (True, count), w)
                  else
                    (case pipeline_incr_expire now w key RATE_LIMIT_WINDOW of
                       (Inl e, w1) \<Rightarrow> (Inl e, w1)
                     | (Inr u, w1) \<Rightarrow> (Inr (False, count + 1), w1))))"

text \<open>
  The function awaits the store twice: for the GET of line 273 and for the pipeline of
  lines 281 to 284. The two parts as functions of their own: \<open>read_count\<close> is lines
  273 and 274, \<open>limit_or_increment\<close> is lines 277 to 286 on the count that was read.
\<close>

definition read_count :: "int \<Rightarrow> world \<Rightarrow> string \<Rightarrow> error + int" where
  "read_count now w ip =
     (case kv_get now w (ratelimit_key ip) of
        Inl e \<Rightarrow> Inl e
      | Inr c \<Rightarrow> int_or_zero c)"

definition limit_or_increment ::
  "int \<Rightarrow> world \<Rightarrow> string \<Rightarrow> int \<Rightarrow> (error + bool \<times> int) \<times> world" where
  "limit_or_increment now w ip count =
     (if count \<ge> RATE_LIMIT_MAX_REQUESTS then (Inr (True, count), w)
      else
        (case pipeline_incr_expire now w (ratelimit_key ip) RATE_LIMIT_WINDOW of
           (Inl e, w1) \<Rightarrow> (Inl e, w1)
         | (Inr u, w1) \<Rightarrow> (Inr (False, count + 1), w1)))"

text \<open>
  Requests served concurrently (spec section 5) share the store, and the server may run
  the commands of one between the two round trips of another. A schedule is a list of
  steps, each at its time: \<open>Get n ip\<close> is the first round trip of request \<open>n\<close>,
  \<open>Rest n\<close> its remainder. The state holds the store, the count each request has read
  and not yet used, and the answers given so far. A request whose read fails answers with
  the error at once.
\<close>

datatype rl_step = Get nat string | Rest nat

record rl_state =
  store :: world
  reads :: "nat \<rightharpoonup> string \<times> int"
  answers :: "(nat \<times> (error + bool \<times> int)) list"

fun rl_exec :: "int \<times> rl_step \<Rightarrow> rl_state \<Rightarrow> rl_state" where
  "rl_exec (now, Get n ip) st =
     (case read_count now (store st) ip of
        Inl e \<Rightarrow> st\<lparr>answers := answers st @ [(n, Inl e)]\<rparr>
      | Inr c \<Rightarrow> st\<lparr>reads := (reads st)(n \<mapsto> (ip, c))\<rparr>)"
| "rl_exec (now, Rest n) st =
     (case reads st n of
        None \<Rightarrow> st
      | Some (ip, c) \<Rightarrow>
          (case limit_or_increment now (store st) ip c of
             (r, w1) \<Rightarrow>
               st\<lparr>store := w1, reads := (reads st)(n := None),
                  answers := answers st @ [(n, r)]\<rparr>))"

definition rl_schedule :: "(int \<times> rl_step) list \<Rightarrow> world \<Rightarrow> rl_state" where
  "rl_schedule steps w = fold rl_exec steps \<lparr>store = w, reads = Map.empty, answers = []\<rparr>"

section \<open>check_threat_intel and add_to_cloudflare_blocklist\<close>

text \<open>
  Lines 290 to 307: one GET to the threat-intelligence service. Every failure (status
  other than 200, timeout, malformed body) is caught and yields \<open>None\<close>.
\<close>

definition check_threat_intel ::
  "env \<Rightarrow> world \<Rightarrow> string \<Rightarrow> ThreatIntelResult option \<times> world" where
  "check_threat_intel ev w ip =
     (threat_intel ev (calls w) ip, w\<lparr>calls := calls w @ [ThreatIntelQuery ip]\<rparr>)"

text \<open>
  Lines 311 to 341: one POST of a block rule to the firewall API. The parameter
  \<open>duration\<close> is not used by the body. Every failure is caught and yields \<open>False\<close>.
\<close>

definition add_to_cloudflare_blocklist ::
  "env \<Rightarrow> world \<Rightarrow> string \<Rightarrow> int \<Rightarrow> bool \<times> world" where
  "add_to_cloudflare_blocklist ev w ip duration =
     (cf_block ev (calls w) ip, w\<lparr>calls := calls w @ [CloudflareBlock ip]\<rparr>)"

section \<open>verify_client\<close>

record VerificationRequest =
  clientIP :: string
  userAgent :: string
  cookies :: "(string \<times> string) list option"
  headers :: "(string \<times> string) list option"

record verification =
  verified :: bool
  verification_type :: string

definition verified_key :: "string \<Rightarrow> string" where
  "verified_key ip = ''verified:'' @ ip"

definition blocked_key :: "string \<Rightarrow> string" where
  "blocked_key ip = ''blocked:'' @ ip"

text \<open>Python truthiness of the reply of GET: \<open>None\<close> and the empty string are false.\<close>

definition truthy :: "rval option \<Rightarrow> bool" where
  "truthy c = (case c of None \<Rightarrow> False | Some (RInt n) \<Rightarrow> True | Some (RStr s) \<Rightarrow> s \<noteq> [])"

text \<open>\<open>threat_intel and threat_intel.risk_score > 70\<close>.\<close>

definition high_risk :: "ThreatIntelResult option \<Rightarrow> bool" where
  "high_risk t = (case t of None \<Rightarrow> False | Some r \<Rightarrow> risk_score r > 70)"

text \<open>Lines 346 to 380.\<close>

definition verify_client ::
  "env \<Rightarrow> int \<Rightarrow> world \<Rightarrow> VerificationRequest \<Rightarrow> (error + verification) \<times> world" where
  "verify_client ev now w request =
     (let ip = clientIP request
      in case kv_get now w (verified_key ip) of
           Inl e \<Rightarrow> (Inl e, w)
         | Inr is_verified \<Rightarrow>
             if truthy is_verified
             then (Inr \<lparr>verified = True, verification_type = ''cached''\<rparr>, w)
             else
               (case check_rate_limit now w ip of
                  (Inl e, w1) \<Rightarrow> (Inl e, w1)
                | (Inr (is_limited, count), w1) \<Rightarrow>
                    if is_limited
                    then (Inr \<lparr>verified = False, verification_type = ''rate_limited''\<rparr>, w1)
                    else
                      (case check_threat_intel ev w1 ip of
                         (ti, w2) \<Rightarrow>
                           if high_risk ti then
                             (case add_to_cloudflare_blocklist ev w2 ip 3600 of
                                (ok, w3) \<Rightarrow>
                                  (case kv_set now w3 (blocked_key ip) (RStr ''threat_intel'') 3600 of
                                     Inl e \<Rightarrow> (Inl e, w3)
                                   | Inr w4 \<Rightarrow>
                                       (Inr \<lparr>verified = False,
                                             verification_type = ''threat_intel_blocked''\<rparr>, w4)))
                           else if count > 100 then
                             (Inr \<lparr>verified = False, verification_type = ''captcha_required''\<rparr>, w2)
                           else if count > 50 then
                             (Inr \<lparr>verified = False, verification_type = ''js_challenge''\<rparr>, w2)
                           else
                             (case kv_set now w2 (verified_key ip) (RStr ''cookie'') 3600 of
                                Inl e \<Rightarrow> (Inl e, w2)
                              | Inr w3 \<Rightarrow>
                                  (Inr \<lparr>verified = True, verification_type = ''cookie''\<rparr>, w3)))))"

section \<open>get_anomalies\<close>

text \<open>\<open>p in key\<close> on Python strings: \<open>p\<close> occurs in \<open>key\<close> as a contiguous run.\<close>

fun substring_in :: "string \<Rightarrow> string \<Rightarrow> bool" where
  "substring_in p [] = (p = [])"
| "substring_in p (c # cs) = (prefix p (c # cs) \<or> substring_in p cs)"

text \<open>\<open>key.split(":")[-1]\<close>: what follows the last colon, the whole key when it has none.\<close>

definition last_segment :: "string \<Rightarrow> string" where
  "last_segment key = rev (takeWhile (\<lambda>c. c \<noteq> CHR '':'') (rev key))"

text \<open>
  The cursor loop around SCAN with \<open>match = prefix*\<close> runs until the server returns
  cursor 0 and so visits every page of the enumeration. It is modelled by its total
  reply: the series keys with the given prefix that exist when the loop starts, in the
  order of the table. The only keys the loop body creates end in \<open>:avg\<close> or
  \<open>:std\<close>, which the body skips. SCAN may report a key more than once while the
  server resizes its table; the reply here is that of a table at rest.
\<close>

definition scan_keys :: "world \<Rightarrow> string \<Rightarrow> error + string list" where
  "scan_keys w p =
     (if \<not> reachable w then Inl ConnectionError
      else Inr (filter (prefix p) (map fst (series w))))"

text \<open>
  The body of the two loops over the scanned keys (lines 412 to 417 and 429 to 437).
  They differ only in what they record beside the value: the key for a path, the last
  segment of the key for an IP; \<open>label\<close> is that function. The accumulator holds
  \<open>anomalies\<close> and \<open>top_paths\<close> or \<open>top_ips\<close>.
\<close>

fun scan_loop ::
  "int \<Rightarrow> (string \<Rightarrow> string) \<Rightarrow> world \<Rightarrow> string list \<Rightarrow>
   AnomalyDetectionResult list \<times> (string \<times> real) list \<Rightarrow>
   (error + AnomalyDetectionResult list \<times> (string \<times> real) list) \<times> world" where
  "scan_loop now label w [] acc = (Inr acc, w)"
| "scan_loop now label w (key # keys) acc =
     (if \<not> substring_in '':avg'' key \<and> \<not> substring_in '':std'' key then
        (case detect_anomalies now w key of
           (Inl e, w1) \<Rightarrow> (Inl e, w1)
         | (Inr None, w1) \<Rightarrow> scan_loop now label w1 keys acc
         | (Inr (Some a), w1) \<Rightarrow>
             if is_anomaly a
             then scan_loop now label w1 keys (fst acc @ [a], snd acc @ [(label key, val a)])
             else scan_loop now label w1 keys acc)
      else scan_loop now label w keys acc)"

text \<open>Lines 443 to 447: the loop over \<open>top_ips\<close>.\<close>

fun auto_block ::
  "env \<Rightarrow> int \<Rightarrow> world \<Rightarrow> (string \<times> real) list \<Rightarrow> (error + unit) \<times> world" where
  "auto_block ev now w [] = (Inr (), w)"
| "auto_block ev now w ((ip, v) # rest) =
     (if v > 100 then
        (case add_to_cloudflare_blocklist ev w ip 3600 of
           (ok, w1) \<Rightarrow>
             (case kv_set now w1 (blocked_key ip) (RStr ''auto_anomaly'') 3600 of
                Inl e \<Rightarrow> (Inl e, w1)
              | Inr w2 \<Rightarrow> auto_block ev now w2 rest))
      else auto_block ev now w rest)"

text \<open>
  Lines 391 to 403: one of the three global metrics; the result is appended when it is
  present and anomalous.
\<close>

definition check_global ::
  "int \<Rightarrow> world \<Rightarrow> string \<Rightarrow> AnomalyDetectionResult list \<Rightarrow>
   (error + AnomalyDetectionResult list) \<times> world" where
  "check_global now w m anomalies =
     (case detect_anomalies now w m of
        (Inl e, w1) \<Rightarrow> (Inl e, w1)
      | (Inr None, w1) \<Rightarrow> (Inr anomalies, w1)
      | (Inr (Some a), w1) \<Rightarrow> (Inr (if is_anomaly a then anomalies @ [a] else anomalies), w1))"

text \<open>Lines 385 to 449.\<close>

definition get_anomalies ::
  "env \<Rightarrow> int \<Rightarrow> world \<Rightarrow> (error + AnomalyDetectionResult list) \<times> world" where
  "get_anomalies ev now w =
     (case check_global now w ''ddos:total_rps'' [] of
        (Inl e, w1) \<Rightarrow> (Inl e, w1)
      | (Inr a1, w1) \<Rightarrow>
     (case check_global now w1 ''ddos:response_time'' a1 of
        (Inl e, w2) \<Rightarrow> (Inl e, w2)
      | (Inr a2, w2) \<Rightarrow>
     (case check_global now w2 ''ddos:error_rate'' a2 of
        (Inl e, w3) \<Rightarrow> (Inl e, w3)
      | (Inr a3, w3) \<Rightarrow>
     (case scan_keys w3 ''ddos:path:'' of
        Inl e \<Rightarrow> (Inl e, w3)
      | Inr path_keys \<Rightarrow>
     (case scan_loop now (\<lambda>key. key) w3 path_keys (a3, []) of
        (Inl e, w4) \<Rightarrow> (Inl e, w4)
      | (Inr (a4, top_paths), w4) \<Rightarrow>
     (case scan_keys w4 ''ddos:ip:'' of
        Inl e \<Rightarrow> (Inl e, w4)
      | Inr ip_keys \<Rightarrow>
     (case scan_loop now last_segment w4 ip_keys (a4, []) of
        (Inl e, w5) \<Rightarrow> (Inl e, w5)
      | (Inr (anomalies, top_ips), w5) \<Rightarrow>
     (case auto_block ev now w5 top_ips of
        (Inl e, w6) \<Rightarrow> (Inl e, w6)
      | (Inr u, w6) \<Rightarrow> (Inr anomalies, w6)))))))))"

section \<open>add_mitigation\<close>

record MitigationAction =
  action_type :: string
  target :: string
  duration :: int
  reason :: string


section \<open>Vocabulary of the specification\<close>

text \<open>
  The spec's words, as definitions of their own, to compare with what the source
  computes: the trailing window of a series, the arithmetic mean, the population standard
  deviation (dividing by the number of values), and the z-score of an observation.
\<close>

definition window :: "int \<Rightarrow> sample list \<Rightarrow> sample list" where
  "window now s = filter (in_range (now - WINDOW_SIZE * 1000) now) s"

definition spec_mean :: "real list \<Rightarrow> real" where
  "spec_mean vs = sum_list vs / real (length vs)"

definition spec_population_stddev :: "real list \<Rightarrow> real" where
  "spec_population_stddev vs =
     sqrt (sum_list (map (\<lambda>x. (x - spec_mean vs)\<^sup>2) vs) / real (length vs))"

definition spec_zscore :: "real list \<Rightarrow> real \<Rightarrow> real" where
  "spec_zscore vs x =
     (if spec_population_stddev vs = 0 then 0
      else (x - spec_mean vs) / spec_population_stddev vs)"

text \<open>No squared deviation from the mean is out of the range of a float.\<close>

definition squares_in_range :: "real list \<Rightarrow> bool" where
  "squares_in_range vs = (\<not> list_ex (\<lambda>x. POW_OVERFLOW \<le> (x - spec_mean vs)\<^sup>2) vs)"

text \<open>The store after one sample has been written to the series \<open>key\<close>.\<close>

definition put_sample :: "string \<Rightarrow> sample \<Rightarrow> world \<Rightarrow> world" where
  "put_sample key p w =
     w\<lparr>series := AList.update key (ts_insert p (samples_of w key)) (series w)\<rparr>"

section \<open>Example data\<close>

text \<open>
  A flat window of 30 samples and one of 29 samples, a store that holds one series under
  \<open>ddos:total_rps\<close>, that store after one evaluation at 29000 ms, and a store that
  cannot be reached.
\<close>

definition flat_series :: "sample list" where
  "flat_series = map (\<lambda>i. (int i * 1000, 5)) [0..<30]"

definition short_series :: "sample list" where
  "short_series = map (\<lambda>i. (int i * 1000, 5)) [0..<29]"

definition series_world :: "sample list \<Rightarrow> world" where
  "series_world s =
     \<lparr>reachable = True, kv = Map.empty, series = [(''ddos:total_rps'', s)], calls = []\<rparr>"

definition evaluated_world :: world where
  "evaluated_world = snd (detect_anomalies 29000 (series_world flat_series) ''ddos:total_rps'')"

definition down_world :: world where
  "down_world = \<lparr>reachable = False, kv = Map.empty, series = [], calls = []\<rparr>"

section \<open>Vocabulary for the rate limiter\<close>

text \<open>
  The count \<open>check_rate_limit\<close> reads: 0 for a missing or dead key, \<open>n\<close> for the
  numeral of \<open>n\<close>; no count for a value that is no numeral.
\<close>

definition current_count :: "int \<Rightarrow> world \<Rightarrow> string \<Rightarrow> int option" where
  "current_count now w ip =
     (case kv_lookup now w (ratelimit_key ip) of
        None \<Rightarrow> Some 0
      | Some (RInt n) \<Rightarrow> Some n
      | Some (RStr s) \<Rightarrow> None)"

text \<open>
  The counter as it is stored under \<open>ratelimit:ip\<close>, whether or not the entry is live.
\<close>

definition stored_count :: "world \<Rightarrow> string \<Rightarrow> int" where
  "stored_count w ip =
     (case kv w (ratelimit_key ip) of
        Some (RInt n, t) \<Rightarrow> n
      | _ \<Rightarrow> 0)"

text \<open>
  The schedules in which the server runs no command of another request between the two
  round trips of a call: each call is given by the times of its two round trips, its
  number and its client, and its two steps stand side by side.
\<close>

fun call_steps :: "int \<times> int \<times> nat \<times> string \<Rightarrow> (int \<times> rl_step) list" where
  "call_steps (t1, t2, n, ip) = [(t1, Get n ip), (t2, Rest n)]"

definition uninterrupted :: "(int \<times> int \<times> nat \<times> string) list \<Rightarrow> (int \<times> rl_step) list" where
  "uninterrupted cs = concat (map call_steps cs)"

text \<open>The clock does not run backwards between the two round trips of a call.\<close>

fun clock_ok :: "int \<times> int \<times> nat \<times> string \<Rightarrow> bool" where
  "clock_ok (t1, t2, n, ip) = (t1 \<le> t2)"

text \<open>
  An example store: the counter of 10.0.0.1 stands at \<open>n\<close> and expires at 60000 ms.
  An example schedule: two requests of that client read the counter before either of
  them increments it.
\<close>

definition counter_world :: "int \<Rightarrow> world" where
  "counter_world n =
     \<lparr>reachable = True,
      kv = [''ratelimit:10.0.0.1'' \<mapsto> (RInt n, Some 60000)],
      series = [], calls = []\<rparr>"

definition interleaved :: "(int \<times> rl_step) list" where
  "interleaved =
     [(5000, Get 1 ''10.0.0.1''), (5000, Get 2 ''10.0.0.1''), (5001, Rest 1), (5002, Rest 2)]"

section \<open>Vocabulary and example data for the verification decision\<close>

text \<open>
  Two stores that differ at most in entries under keys that start with \<open>blocked:\<close>.
\<close>

definition same_but_blocked :: "world \<Rightarrow> world \<Rightarrow> bool" where
  "same_but_blocked w1 w2 =
     (reachable w1 = reachable w2 \<and> series w1 = series w2 \<and> calls w1 = calls w2 \<and>
      (\<forall>k. \<not> prefix ''blocked:'' k \<longrightarrow> kv w1 k = kv w2 k))"

text \<open>
  Example answers of the threat-intelligence service, example requests and example
  registries.
\<close>

definition risky :: "real \<Rightarrow> ThreatIntelResult" where
  "risky score =
     \<lparr>ti_ip = ''10.0.0.1'', risk_score = score, categories = [''botnet''],
      is_proxy = False, is_tor = False, is_vpn = False, country_code = ''ZZ'',
      asn = 64500, asn_name = ''EXAMPLE''\<rparr>"

definition risk_env :: "real \<Rightarrow> env" where
  "risk_env score =
     \<lparr>threat_intel = (\<lambda>cs ip. Some (risky score)),
      cf_block = (\<lambda>cs ip. True),
      cf_challenge = (\<lambda>cs ip. True)\<rparr>"

definition quiet_env :: env where
  "quiet_env =
     \<lparr>threat_intel = (\<lambda>cs ip. None),
      cf_block = (\<lambda>cs ip. False),
      cf_challenge = (\<lambda>cs ip. False)\<rparr>"

definition client :: VerificationRequest where
  "client = \<lparr>clientIP = ''10.0.0.1'', userAgent = ''curl/8.0'', cookies = None, headers = None\<rparr>"

definition registry_world :: "(string \<rightharpoonup> rval \<times> int option) \<Rightarrow> world" where
  "registry_world m = \<lparr>reachable = True, kv = m, series = [], calls = []\<rparr>"

definition blocked_world :: world where
  "blocked_world =
     registry_world [''blocked:10.0.0.1'' \<mapsto> (RStr ''threat_intel'', Some 3600000)]"

section \<open>Example data for manual mitigation\<close>



section \<open>Example data for the anomaly sweep\<close>

text \<open>
  A series of 32 samples, one per millisecond up to 1700000000000 ms: 27 times the value
  65, then 1, 1, 129, 1 and 193. Its mean is 65, its population standard deviation 32 and
  the z-score of its last value 4; every intermediate value of the computation is a small
  integer or a power of two, the same in floating point as in exact arithmetic. A store
  holds this series for an IPv4 client and for an IPv6 client, whose address has colons
  of its own.
\<close>

definition burst_series :: "sample list" where
  "burst_series =
     map (\<lambda>i. (1699999999969 + int i, 65)) [0..<27] @
     [(1699999999996, 1), (1699999999997, 1), (1699999999998, 129), (1699999999999, 1),
      (1700000000000, 193)]"

definition sweep_world :: world where
  "sweep_world =
     \<lparr>reachable = True, kv = Map.empty,
      series = [(''ddos:ip:10.0.0.1'', burst_series), (''ddos:ip:2001:db8::1'', burst_series)],
      calls = []\<rparr>"

section \<open>Properties\<close>

subsection \<open>The time-series store and the statistics\<close>

lemma detect_unreachable:
  "\<not> reachable w \<Longrightarrow> detect_anomalies now w m = (Inl ConnectionError, w)"
  by (simp add: detect_anomalies_def ts_range_def)

lemma detect_missing:
  "reachable w \<Longrightarrow> ts_lookup w m = None \<Longrightarrow> detect_anomalies now w m = (Inr None, w)"
  by (simp add: detect_anomalies_def ts_range_def)

lemma detect_short:
  "reachable w \<Longrightarrow> ts_lookup w m = Some s \<Longrightarrow> length (window now s) < MIN_DATA_POINTS
   \<Longrightarrow> detect_anomalies now w m = (Inr None, w)"
  by (simp add: detect_anomalies_def ts_range_def window_def)

lemma reachable_put_sample [simp]: "reachable (put_sample k p w) = reachable w"
  by (simp add: put_sample_def)

lemma put_sample_frame [simp]:
  "kv (put_sample k p w) = kv w" "calls (put_sample k p w) = calls w"
  by (simp_all add: put_sample_def)

lemma ts_lookup_put_sample:
  "ts_lookup (put_sample k p w) k' =
     (if k' = k then Some (ts_insert p (samples_of w k)) else ts_lookup w k')"
  by (simp add: put_sample_def ts_lookup_def update_conv')

lemma samples_of_put_sample:
  "samples_of (put_sample k p w) k' =
     (if k' = k then ts_insert p (samples_of w k) else samples_of w k')"
  by (simp add: samples_of_def ts_lookup_put_sample)

lemma holds_put_sample_other:
  "k' \<noteq> k \<Longrightarrow> holds_sample (put_sample k p w) k' t = holds_sample w k' t"
  by (simp add: holds_sample_def samples_of_put_sample)

lemma ts_add_put:
  "reachable w \<Longrightarrow> \<not> holds_sample w key t \<Longrightarrow> ts_add w key t v = Inr (put_sample key (t, v) w)"
  by (simp add: ts_add_def put_sample_def)

lemma ts_add_refused:
  "reachable w \<Longrightarrow> holds_sample w key t \<Longrightarrow> ts_add w key t v = Inl ResponseError"
  by (simp add: ts_add_def)

lemma ts_insert_mem: "p \<in> set (ts_insert p s)"
  by (induction s) auto

lemma ts_insert_set: "set (ts_insert p s) = insert p (set s)"
  by (induction s) auto

lemma ts_insert_sorted:
  "sorted (map fst s) \<Longrightarrow> sorted (map fst (ts_insert p s))"
  by (induction s) (auto simp: ts_insert_set)

lemma holds_put_sample_same: "holds_sample (put_sample k (t, v) w) k t"
  by (simp add: holds_sample_def samples_of_put_sample ts_insert_set)

text \<open>
  The outcome of the computation stage: the result with both samples written when the
  store takes them, the error reply and what was written before it otherwise.
\<close>

lemma detect_stage:
  assumes "reachable w" "ts_lookup w m = Some s" "MIN_DATA_POINTS \<le> length (window now s)"
    and "squares_in_range (map snd (window now s))"
  shows "detect_anomalies now w m =
     (if holds_sample w (m @ '':avg'') now then (Inl ResponseError, w)
      else if holds_sample w (m @ '':std'') now
      then (Inl ResponseError, put_sample (m @ '':avg'') (now, spec_mean (map snd (window now s))) w)
      else
       (Inr (Some \<lparr>timestamp = real_of_int now / 1000, metric = m,
                   val = snd (last (window now s)),
                   zscore = spec_zscore (map snd (window now s)) (snd (last (window now s))),
                   is_anomaly = (abs (spec_zscore (map snd (window now s))
                                        (snd (last (window now s)))) > ZSCORE_THRESHOLD),
                   threshold = ZSCORE_THRESHOLD\<rparr>),
        put_sample (m @ '':std'') (now, spec_population_stddev (map snd (window now s)))
          (put_sample (m @ '':avg'') (now, spec_mean (map snd (window now s))) w)))"
proof -
  have ne: "window now s \<noteq> []" using assms(3) by (auto simp: MIN_DATA_POINTS_def)
  have ov: "\<not> list_ex (\<lambda>x. POW_OVERFLOW \<le> (x - sum_list (map snd (window now s))
                  / real (length (window now s)))\<^sup>2) (map snd (window now s))"
    using assms(4) by (simp add: squares_in_range_def spec_mean_def)
  show ?thesis
    using assms(1,2,3) ne ov
    by (simp add: detect_anomalies_def ts_range_def window_def[symmetric] Let_def
        ts_add_put ts_add_refused holds_put_sample_other
        spec_zscore_def spec_population_stddev_def spec_mean_def)
qed

lemma detect_overflow:
  assumes "reachable w" "ts_lookup w m = Some s" "MIN_DATA_POINTS \<le> length (window now s)"
    and "\<not> squares_in_range (map snd (window now s))"
  shows "detect_anomalies now w m = (Inl OverflowError, w)"
proof -
  have ne: "window now s \<noteq> []" using assms(3) by (auto simp: MIN_DATA_POINTS_def)
  have ov: "list_ex (\<lambda>x. POW_OVERFLOW \<le> (x - sum_list (map snd (window now s))
                  / real (length (window now s)))\<^sup>2) (map snd (window now s))"
    using assms(4) by (simp add: squares_in_range_def spec_mean_def)
  show ?thesis
    using assms(1,2,3) ne ov
    by (simp add: detect_anomalies_def ts_range_def window_def[symmetric] Let_def)
qed

lemma detect_frame:
  "k \<noteq> m @ '':avg'' \<Longrightarrow> k \<noteq> m @ '':std''
   \<Longrightarrow> ts_lookup (snd (detect_anomalies now w m)) k = ts_lookup w k"
  "kv (snd (detect_anomalies now w m)) = kv w"
  "calls (snd (detect_anomalies now w m)) = calls w"
  "reachable (snd (detect_anomalies now w m)) = reachable w"
  by (auto simp: detect_anomalies_def Let_def ts_range_def ts_add_def ts_lookup_def update_conv'
           split: sum.splits error.splits if_splits)

lemma window_all: "\<forall>p\<in>set s. now - 60000 \<le> fst p \<and> fst p \<le> now \<Longrightarrow> window now s = s"
  by (simp add: window_def in_range_def WINDOW_SIZE_def filter_id_conv)

lemma sum_list_const: "\<forall>x\<in>set vs. x = c \<Longrightarrow> sum_list vs = real (length vs) * (c::real)"
  by (induction vs) (auto simp: algebra_simps)

lemma spec_mean_const: "vs \<noteq> [] \<Longrightarrow> \<forall>x\<in>set vs. x = c \<Longrightarrow> spec_mean vs = c"
  by (simp add: spec_mean_def sum_list_const)

lemma sum_list_zero: "\<forall>x\<in>set vs. x = (0::real) \<Longrightarrow> sum_list vs = 0"
  by (induction vs) auto

lemma spec_stddev_const:
  assumes "vs \<noteq> []" "\<forall>x\<in>set vs. x = c"
  shows "spec_population_stddev vs = 0"
proof -
  have m: "spec_mean vs = c" using assms by (rule spec_mean_const)
  have "sum_list (map (\<lambda>x. (x - c)\<^sup>2) vs) = 0"
    by (rule sum_list_zero) (use assms(2) in auto)
  then show ?thesis by (simp add: spec_population_stddev_def m)
qed

lemma squares_in_range_const:
  assumes "vs \<noteq> []" "\<forall>x\<in>set vs. x = c"
  shows "squares_in_range vs"
proof -
  have m: "spec_mean vs = c" using assms by (rule spec_mean_const)
  have "0 < POW_OVERFLOW" by (simp add: POW_OVERFLOW_def)
  then show ?thesis using assms(2) by (auto simp: squares_in_range_def m list_ex_iff)
qed

subsection \<open>The example data\<close>

lemma series_world_simps [simp]:
  "reachable (series_world s)" "ts_lookup (series_world s) ''ddos:total_rps'' = Some s"
  "kv (series_world s) = Map.empty" "calls (series_world s) = []"
  by (simp_all add: series_world_def ts_lookup_def)

lemma series_world_other:
  "k \<noteq> ''ddos:total_rps'' \<Longrightarrow> ts_lookup (series_world s) k = None"
  "k \<noteq> ''ddos:total_rps'' \<Longrightarrow> \<not> holds_sample (series_world s) k t"
  by (simp_all add: series_world_def ts_lookup_def holds_sample_def samples_of_def)

lemma length_flat [simp]: "length flat_series = 30" "length short_series = 29"
  by (simp_all add: flat_series_def short_series_def)

lemma window_flat: "window 29000 flat_series = flat_series"
  by (rule window_all) (auto simp: flat_series_def)

lemma window_short: "window 29000 short_series = short_series"
  by (rule window_all) (auto simp: short_series_def)

lemma flat_values: "\<forall>x\<in>set (map snd flat_series). x = 5"
  by (auto simp: flat_series_def)

lemma flat_nonempty: "map snd flat_series \<noteq> []"
  by (simp add: flat_series_def)

lemma flat_mean: "spec_mean (map snd flat_series) = 5"
  using flat_nonempty flat_values by (rule spec_mean_const)

lemma flat_stddev: "spec_population_stddev (map snd flat_series) = 0"
  using flat_nonempty flat_values by (rule spec_stddev_const)

lemma flat_in_range: "squares_in_range (map snd flat_series)"
  using flat_nonempty flat_values by (rule squares_in_range_const)

lemma flat_last: "snd (last flat_series) = 5"
  by (simp add: flat_series_def last_map)

lemma flat_detect:
  "detect_anomalies 29000 (series_world flat_series) ''ddos:total_rps'' =
     (Inr (Some \<lparr>timestamp = 29, metric = ''ddos:total_rps'', val = 5, zscore = 0,
                 is_anomaly = False, threshold = 3\<rparr>),
      put_sample ''ddos:total_rps:std'' (29000, 0)
        (put_sample ''ddos:total_rps:avg'' (29000, 5) (series_world flat_series)))"
  using detect_stage [of "series_world flat_series" "''ddos:total_rps''" flat_series 29000]
  by (simp add: MIN_DATA_POINTS_def window_flat flat_in_range series_world_other flat_last
        flat_mean flat_stddev spec_zscore_def ZSCORE_THRESHOLD_def)

lemma evaluated_world_eq:
  "evaluated_world =
     put_sample ''ddos:total_rps:std'' (29000, 0)
       (put_sample ''ddos:total_rps:avg'' (29000, 5) (series_world flat_series))"
  by (simp add: evaluated_world_def flat_detect)

lemma evaluated_world_facts:
  "reachable evaluated_world"
  "ts_lookup evaluated_world ''ddos:total_rps'' = Some flat_series"
  "ts_lookup evaluated_world ''ddos:total_rps:avg'' = Some [(29000, 5)]"
  "ts_lookup evaluated_world ''ddos:total_rps:std'' = Some [(29000, 0)]"
  "holds_sample evaluated_world ''ddos:total_rps:avg'' 29000"
  by (simp_all add: evaluated_world_eq ts_lookup_put_sample samples_of_put_sample
        samples_of_def series_world_other holds_sample_def)

subsection \<open>detect_anomalies\<close>

lemma detect_not_absent:
  assumes "reachable w" "ts_lookup w m = Some s" "MIN_DATA_POINTS \<le> length (window now s)"
  shows "fst (detect_anomalies now w m) \<noteq> Inr None"
proof (cases "squares_in_range (map snd (window now s))")
  case True
  show ?thesis by (simp add: detect_stage [OF assms True])
next
  case False
  show ?thesis by (simp add: detect_overflow [OF assms False])
qed

text \<open>
  C6. For a metric key that exists in the store, \<open>detect_anomalies\<close> returns no result
  and leaves the store as it is when the trailing window holds fewer than 30 samples.
  With 30 or more it goes on to the computation: the outcome is never the absent result,
  and it is a result whenever no square overflows and the store takes the two writes,
  that is, neither derived series holds a sample at the evaluation timestamp.
\<close>

theorem detect_anomalies_min_data_points:
  assumes "reachable w" and "ts_lookup w m = Some s"
  shows "(length (window now s) < 30 \<longrightarrow> detect_anomalies now w m = (Inr None, w)) \<and>
         (30 \<le> length (window now s) \<longrightarrow>
            fst (detect_anomalies now w m) \<noteq> Inr None \<and>
            (squares_in_range (map snd (window now s)) \<and>
             \<not> holds_sample w (m @ '':avg'') now \<and> \<not> holds_sample w (m @ '':std'') now \<longrightarrow>
               (\<exists>r w'. detect_anomalies now w m = (Inr (Some r), w'))))"
  using assms detect_short [of w m s now] detect_not_absent [of w m s now]
    detect_stage [of w m s now]
  by (simp add: MIN_DATA_POINTS_def)

theorem detect_anomalies_min_data_points_witness:
  "detect_anomalies 29000 (series_world short_series) ''ddos:total_rps''
     = (Inr None, series_world short_series) \<and>
   fst (detect_anomalies 29000 (series_world flat_series) ''ddos:total_rps'') \<noteq> Inr None \<and>
   (\<exists>r w'. detect_anomalies 29000 (series_world flat_series) ''ddos:total_rps''
     = (Inr (Some r), w'))"
  using detect_anomalies_min_data_points
          [of "series_world short_series" "''ddos:total_rps''" short_series 29000]
        detect_anomalies_min_data_points
          [of "series_world flat_series" "''ddos:total_rps''" flat_series 29000]
  by (simp add: window_flat window_short flat_in_range series_world_other)

text \<open>
  C7 as stated fails for the unreachable store: the range query raises a connection
  error, the handler catches response errors only, and the error leaves
  \<open>detect_anomalies\<close>.
\<close>

theorem detect_anomalies_unreachable_counterexample:
  "fst (detect_anomalies 0 down_world ''ddos:total_rps'') = Inl ConnectionError \<and>
   fst (detect_anomalies 0 down_world ''ddos:total_rps'') \<noteq> Inr None"
  by (simp add: detect_unreachable down_world_def)

text \<open>
  C7, amended. When the metric key has never been created, \<open>detect_anomalies\<close> returns
  no result and leaves the store as it is; when the store is unreachable, the connection
  error leaves the function.
\<close>

theorem detect_anomalies_no_signal:
  "(reachable w \<and> ts_lookup w m = None \<longrightarrow> detect_anomalies now w m = (Inr None, w)) \<and>
   (\<not> reachable w \<longrightarrow> detect_anomalies now w m = (Inl ConnectionError, w))"
  by (simp add: detect_unreachable detect_missing)

theorem detect_anomalies_no_signal_witness:
  "detect_anomalies 29000 (series_world flat_series) ''ddos:ip:10.0.0.1''
     = (Inr None, series_world flat_series) \<and>
   detect_anomalies 29000 down_world ''ddos:total_rps'' = (Inl ConnectionError, down_world)"
proof -
  have a: "reachable (series_world flat_series) \<and>
           ts_lookup (series_world flat_series) ''ddos:ip:10.0.0.1'' = None"
    by (simp add: series_world_def ts_lookup_def)
  have b: "\<not> reachable down_world" by (simp add: down_world_def)
  show ?thesis
    using a b detect_anomalies_no_signal [of "series_world flat_series" "''ddos:ip:10.0.0.1''" 29000]
      detect_anomalies_no_signal [of down_world "''ddos:total_rps''" 29000]
    by simp
qed

text \<open>
  C8 as stated fails for the second of two evaluations of a metric within one
  millisecond. The first has stored a sample at that timestamp on \<open>:avg\<close>; the key
  exists and its window holds 30 samples, yet the store refuses the write to \<open>:avg\<close>,
  the error leaves \<open>detect_anomalies\<close>, and nothing is written, to \<open>:std\<close> as
  little as to \<open>:avg\<close>.
\<close>

theorem detect_anomalies_writes_counterexample:
  "ts_lookup evaluated_world ''ddos:total_rps'' = Some flat_series \<and>
   length (window 29000 flat_series) = 30 \<and>
   detect_anomalies 29000 evaluated_world ''ddos:total_rps''
     = (Inl ResponseError, evaluated_world)"
  using detect_stage [of evaluated_world "''ddos:total_rps''" flat_series 29000]
  by (simp add: evaluated_world_facts window_flat flat_in_range MIN_DATA_POINTS_def)

text \<open>
  C8, amended. An evaluation that reaches the computation stage (the key exists, its
  window holds at least 30 samples, no square overflows) and whose two writes the store
  takes, neither derived series holding a sample at the evaluation timestamp yet, returns
  a result and has written the computed mean on \<open>metric:avg\<close> and the computed deviation
  on \<open>metric:std\<close>, each as a new sample at the evaluation timestamp, whether or not the
  result is anomalous. When \<open>:avg\<close> holds a sample at that timestamp the store refuses,
  the error leaves the function and nothing is written; when only \<open>:std\<close> does, the
  mean has been written before the error. In every case no other series is touched, the
  series of the evaluated metric included, and neither are the string keys nor the
  external services.
\<close>

theorem detect_anomalies_writes:
  assumes "reachable w" and "ts_lookup w m = Some s" and "30 \<le> length (window now s)"
    and "squares_in_range (map snd (window now s))"
  shows "(\<not> holds_sample w (m @ '':avg'') now \<and> \<not> holds_sample w (m @ '':std'') now \<longrightarrow>
           (\<exists>r w'. detect_anomalies now w m = (Inr (Some r), w') \<and>
              ts_lookup w' (m @ '':avg'') =
                Some (ts_insert (now, spec_mean (map snd (window now s)))
                        (samples_of w (m @ '':avg''))) \<and>
              ts_lookup w' (m @ '':std'') =
                Some (ts_insert (now, spec_population_stddev (map snd (window now s)))
                        (samples_of w (m @ '':std''))))) \<and>
         (holds_sample w (m @ '':avg'') now \<longrightarrow>
            detect_anomalies now w m = (Inl ResponseError, w)) \<and>
         (\<not> holds_sample w (m @ '':avg'') now \<and> holds_sample w (m @ '':std'') now \<longrightarrow>
            detect_anomalies now w m =
              (Inl ResponseError,
               put_sample (m @ '':avg'') (now, spec_mean (map snd (window now s))) w)) \<and>
         (\<forall>k. k \<noteq> m @ '':avg'' \<and> k \<noteq> m @ '':std'' \<longrightarrow>
            ts_lookup (snd (detect_anomalies now w m)) k = ts_lookup w k) \<and>
         ts_lookup (snd (detect_anomalies now w m)) m = ts_lookup w m \<and>
         kv (snd (detect_anomalies now w m)) = kv w \<and>
         calls (snd (detect_anomalies now w m)) = calls w"
proof -
  have st: "detect_anomalies now w m =
     (if holds_sample w (m @ '':avg'') now then (Inl ResponseError, w)
      else if holds_sample w (m @ '':std'') now
      then (Inl ResponseError, put_sample (m @ '':avg'') (now, spec_mean (map snd (window now s))) w)
      else
       (Inr (Some \<lparr>timestamp = real_of_int now / 1000, metric = m,
                   val = snd (last (window now s)),
                   zscore = spec_zscore (map snd (window now s)) (snd (last (window now s))),
                   is_anomaly = (abs (spec_zscore (map snd (window now s))
                                        (snd (last (window now s)))) > ZSCORE_THRESHOLD),
                   threshold = ZSCORE_THRESHOLD\<rparr>),
        put_sample (m @ '':std'') (now, spec_population_stddev (map snd (window now s)))
          (put_sample (m @ '':avg'') (now, spec_mean (map snd (window now s))) w)))"
    using assms by (intro detect_stage) (simp_all add: MIN_DATA_POINTS_def)
  have a: "\<not> holds_sample w (m @ '':avg'') now \<and> \<not> holds_sample w (m @ '':std'') now \<longrightarrow>
           (\<exists>r w'. detect_anomalies now w m = (Inr (Some r), w') \<and>
              ts_lookup w' (m @ '':avg'') =
                Some (ts_insert (now, spec_mean (map snd (window now s)))
                        (samples_of w (m @ '':avg''))) \<and>
              ts_lookup w' (m @ '':std'') =
                Some (ts_insert (now, spec_population_stddev (map snd (window now s)))
                        (samples_of w (m @ '':std''))))"
    by (simp add: st ts_lookup_put_sample samples_of_put_sample)
  have b: "holds_sample w (m @ '':avg'') now \<longrightarrow>
            detect_anomalies now w m = (Inl ResponseError, w)"
    by (simp add: st)
  have c: "\<not> holds_sample w (m @ '':avg'') now \<and> holds_sample w (m @ '':std'') now \<longrightarrow>
            detect_anomalies now w m =
              (Inl ResponseError,
               put_sample (m @ '':avg'') (now, spec_mean (map snd (window now s))) w)"
    by (simp add: st)
  have d: "\<forall>k. k \<noteq> m @ '':avg'' \<and> k \<noteq> m @ '':std'' \<longrightarrow>
            ts_lookup (snd (detect_anomalies now w m)) k = ts_lookup w k"
    by (simp add: detect_frame)
  have e: "ts_lookup (snd (detect_anomalies now w m)) m = ts_lookup w m"
    by (rule detect_frame) simp_all
  show ?thesis using a b c d e by (simp add: detect_frame)
qed

theorem detect_anomalies_writes_witness:
  "\<exists>r w'. detect_anomalies 29000 (series_world flat_series) ''ddos:total_rps''
             = (Inr (Some r), w') \<and>
          \<not> is_anomaly r \<and>
          ts_lookup w' ''ddos:total_rps:avg'' = Some [(29000, 5)] \<and>
          ts_lookup w' ''ddos:total_rps:std'' = Some [(29000, 0)] \<and>
          ts_lookup w' ''ddos:total_rps'' = Some flat_series \<and>
          ts_lookup w' ''ddos:error_rate'' = None"
proof -
  obtain r w' where
    d: "detect_anomalies 29000 (series_world flat_series) ''ddos:total_rps'' = (Inr (Some r), w')"
    and a: "ts_lookup w' ''ddos:total_rps:avg'' = Some [(29000, 5)]"
    and s: "ts_lookup w' ''ddos:total_rps:std'' = Some [(29000, 0)]"
    using detect_anomalies_writes
            [of "series_world flat_series" "''ddos:total_rps''" flat_series 29000]
    by (simp add: window_flat flat_in_range series_world_other flat_mean flat_stddev
          samples_of_def)
       blast
  have o: "ts_lookup (snd (detect_anomalies 29000 (series_world flat_series) ''ddos:total_rps'')) k
           = ts_lookup (series_world flat_series) k"
    if "k \<noteq> ''ddos:total_rps:avg''" "k \<noteq> ''ddos:total_rps:std''" for k
    using detect_anomalies_writes
            [of "series_world flat_series" "''ddos:total_rps''" flat_series 29000] that
    by (simp add: window_flat flat_in_range)
  have n: "\<not> is_anomaly r" using d by (auto simp: flat_detect)
  have m: "ts_lookup w' ''ddos:total_rps'' = Some flat_series"
    using o [of "''ddos:total_rps''"] d by simp
  have e: "ts_lookup w' ''ddos:error_rate'' = None"
    using o [of "''ddos:error_rate''"] d by (simp add: series_world_other)
  show ?thesis using d a s n m e by blast
qed

subsection \<open>check_rate_limit\<close>

lemma ratelimit_key_inj [simp]: "(ratelimit_key a = ratelimit_key b) = (a = b)"
  by (simp add: ratelimit_key_def)

lemma check_rate_limit_limited:
  assumes "reachable w" "current_count now w ip = Some count" "RATE_LIMIT_MAX_REQUESTS \<le> count"
  shows "check_rate_limit now w ip = (Inr (True, count), w)"
  using assms
  by (auto simp: check_rate_limit_def kv_get_def current_count_def int_or_zero_def
           split: option.splits rval.splits)

lemma check_rate_limit_admit:
  assumes "reachable w" "current_count now w ip = Some count" "count < RATE_LIMIT_MAX_REQUESTS"
  shows "check_rate_limit now w ip =
           (Inr (False, count + 1),
            w\<lparr>kv := (kv w)(ratelimit_key ip \<mapsto>
                    (RInt (count + 1), Some (now + RATE_LIMIT_WINDOW * 1000)))\<rparr>)"
  using assms
  by (auto simp: check_rate_limit_def kv_get_def current_count_def int_or_zero_def
                 pipeline_incr_expire_def incr_cmd_def expire_cmd_def kv_lookup_def live_def
                 RATE_LIMIT_WINDOW_def
           split: option.splits rval.splits if_splits)

lemma pipeline_incr_expire_other:
  "k \<noteq> key \<Longrightarrow> kv (snd (pipeline_incr_expire now w key secs)) k = kv w k"
  by (simp add: pipeline_incr_expire_def incr_cmd_def expire_cmd_def kv_lookup_def
           split: option.splits rval.splits)

lemma check_rate_limit_steps:
  "check_rate_limit now w ip =
     (case read_count now w ip of
        Inl e \<Rightarrow> (Inl e, w)
      | Inr count \<Rightarrow> limit_or_increment now w ip count)"
  by (simp add: check_rate_limit_def read_count_def limit_or_increment_def Let_def
           split: sum.splits)

lemma rl_call:
  "rl_schedule [(now, Get n ip), (now, Rest n)] w =
     \<lparr>store = snd (check_rate_limit now w ip), reads = Map.empty,
      answers = [(n, fst (check_rate_limit now w ip))]\<rparr>"
  by (simp add: rl_schedule_def check_rate_limit_steps split: sum.splits prod.splits)

lemma limit_or_increment_other:
  "ip' \<noteq> ip \<Longrightarrow>
   stored_count (snd (limit_or_increment now w ip' c)) ip = stored_count w ip"
  using pipeline_incr_expire_other [of "ratelimit_key ip" "ratelimit_key ip'" now w RATE_LIMIT_WINDOW]
  by (auto simp: limit_or_increment_def stored_count_def split: sum.splits prod.splits)

lemma pipeline_incr_expire_count:
  "stored_count (snd (pipeline_incr_expire t w (ratelimit_key ip) RATE_LIMIT_WINDOW)) ip =
     (if \<not> reachable w then stored_count w ip
      else case kv_lookup t w (ratelimit_key ip) of
             None \<Rightarrow> 1
           | Some (RInt n) \<Rightarrow> n + 1
           | Some (RStr s) \<Rightarrow> 0)"
  by (auto simp: pipeline_incr_expire_def incr_cmd_def expire_cmd_def kv_lookup_def
                 stored_count_def live_def RATE_LIMIT_WINDOW_def
           split: option.splits rval.splits if_splits)

lemma read_count_live:
  assumes "read_count t1 w ip = Inr c" "t1 \<le> t2" "kv_lookup t2 w (ratelimit_key ip) = Some (RInt n)"
  shows "c = n"
  using assms
  by (auto simp: read_count_def kv_get_def kv_lookup_def live_def int_or_zero_def
           split: if_splits option.splits rval.splits)

lemma rl_call_cap:
  assumes "t1 \<le> t2" and "stored_count (store st) ip \<le> RATE_LIMIT_MAX_REQUESTS"
    and "reads st n = None"
  shows "stored_count (store (rl_exec (t2, Rest n) (rl_exec (t1, Get n ip') st))) ip
           \<le> RATE_LIMIT_MAX_REQUESTS \<and>
         reads (rl_exec (t2, Rest n) (rl_exec (t1, Get n ip') st)) = reads st"
proof (cases "read_count t1 (store st) ip'")
  case (Inl e)
  then show ?thesis using assms by simp
next
  case (Inr c)
  have r: "(reads st)(n := None) = reads st" using assms(3) by auto
  have step: "rl_exec (t2, Rest n) (rl_exec (t1, Get n ip') st) =
      st\<lparr>store := snd (limit_or_increment t2 (store st) ip' c),
         reads := reads st,
         answers := answers st @ [(n, fst (limit_or_increment t2 (store st) ip' c))]\<rparr>"
    using Inr r by (simp split: prod.splits)
  have "stored_count (snd (limit_or_increment t2 (store st) ip' c)) ip \<le> RATE_LIMIT_MAX_REQUESTS"
  proof (cases "ip' = ip")
    case False
    then show ?thesis using assms(2) by (simp add: limit_or_increment_other)
  next
    case True
    show ?thesis
    proof (cases "RATE_LIMIT_MAX_REQUESTS \<le> c")
      case True
      then show ?thesis using assms(2) by (simp add: limit_or_increment_def)
    next
      case False
      have eq: "snd (limit_or_increment t2 (store st) ip' c) =
                snd (pipeline_incr_expire t2 (store st) (ratelimit_key ip) RATE_LIMIT_WINDOW)"
        using False \<open>ip' = ip\<close> by (simp add: limit_or_increment_def split: prod.splits sum.splits)
      show ?thesis
      proof (cases "kv_lookup t2 (store st) (ratelimit_key ip)")
        case None
        then show ?thesis using assms(2)
          by (simp add: eq pipeline_incr_expire_count RATE_LIMIT_MAX_REQUESTS_def)
      next
        case (Some v)
        show ?thesis
        proof (cases v)
          case (RStr s)
          then show ?thesis using Some assms(2)
            by (simp add: eq pipeline_incr_expire_count RATE_LIMIT_MAX_REQUESTS_def)
        next
          case (RInt m)
          have "c = m" using Inr assms(1) Some RInt \<open>ip' = ip\<close> by (auto intro: read_count_live)
          then have "m + 1 \<le> RATE_LIMIT_MAX_REQUESTS" using False by simp
          then show ?thesis unfolding eq using Some RInt assms(2)
            by (simp add: pipeline_incr_expire_count)
        qed
      qed
    qed
  qed
  then show ?thesis unfolding step by simp
qed

lemma fold_uninterrupted_cap:
  assumes "\<forall>c\<in>set cs. clock_ok c"
    and "stored_count (store st) ip \<le> RATE_LIMIT_MAX_REQUESTS"
    and "reads st = Map.empty"
  shows "stored_count (store (fold rl_exec (uninterrupted cs) st)) ip \<le> RATE_LIMIT_MAX_REQUESTS"
  using assms
proof (induction cs arbitrary: st)
  case Nil
  then show ?case by (simp add: uninterrupted_def)
next
  case (Cons c cs)
  obtain t1 t2 n ip' where c: "c = (t1, t2, n, ip')" by (cases c) auto
  let ?st = "rl_exec (t2, Rest n) (rl_exec (t1, Get n ip') st)"
  have t: "t1 \<le> t2" using Cons.prems(1) c by simp
  have n: "reads st n = None" using Cons.prems(3) by simp
  have cap: "stored_count (store ?st) ip \<le> RATE_LIMIT_MAX_REQUESTS" and rd: "reads ?st = reads st"
    using rl_call_cap [OF t Cons.prems(2) n] by blast+
  have "stored_count (store (fold rl_exec (uninterrupted cs) ?st)) ip \<le> RATE_LIMIT_MAX_REQUESTS"
    using Cons.prems(1) cap rd Cons.prems(3) by (intro Cons.IH) simp_all
  then show ?case by (simp add: c uninterrupted_def)
qed

lemma counter_world_count: "now < 60000 \<Longrightarrow> current_count now (counter_world n) ''10.0.0.1'' = Some n"
  by (simp add: current_count_def counter_world_def kv_lookup_def live_def ratelimit_key_def)

lemma counter_world_stored: "stored_count (counter_world n) ''10.0.0.1'' = n"
  by (simp add: stored_count_def counter_world_def ratelimit_key_def)

text \<open>
  C5 as stated fails when two requests of one client are served concurrently. Both read
  the count 999 before either increments; each then increments, the store holds 1001,
  and each returns 1000, which for the second is not the count after its increment.
\<close>

theorem check_rate_limit_interleaved_counterexample:
  "stored_count (counter_world 999) ''10.0.0.1'' = 999 \<and>
   stored_count (store (rl_schedule interleaved (counter_world 999))) ''10.0.0.1'' = 1001 \<and>
   answers (rl_schedule interleaved (counter_world 999))
     = [(1, Inr (False, 1000)), (2, Inr (False, 1000))]"
  by (simp add: rl_schedule_def interleaved_def counter_world_def stored_count_def
        read_count_def kv_get_def kv_lookup_def live_def int_or_zero_def ratelimit_key_def
        limit_or_increment_def pipeline_incr_expire_def incr_cmd_def expire_cmd_def
        RATE_LIMIT_MAX_REQUESTS_def RATE_LIMIT_WINDOW_def)

text \<open>
  C5, amended. A call of \<open>check_rate_limit\<close> whose two round trips the server runs
  at one clock reading with no other command between them, on a reachable store: with a
  current count of at least 1000 it answers limited together with that count and leaves
  the store as it is; with a smaller count it stores the count plus one with a fresh
  expiry of 60 seconds and answers not limited together with the count plus one. Such a
  call is the schedule of its two steps side by side. Along every schedule of calls with
  no other command between their two round trips, for whichever clients and with the
  clock moving on within a call or not, a stored counter that is at most 1000 stays at
  most 1000.
\<close>

theorem check_rate_limit_capped:
  "(reachable w \<and> current_count now w ip = Some count \<and> 1000 \<le> count \<longrightarrow>
      check_rate_limit now w ip = (Inr (True, count), w)) \<and>
   (reachable w \<and> current_count now w ip = Some count \<and> count < 1000 \<longrightarrow>
      check_rate_limit now w ip =
        (Inr (False, count + 1),
         w\<lparr>kv := (kv w)(ratelimit_key ip \<mapsto> (RInt (count + 1), Some (now + 60 * 1000)))\<rparr>)) \<and>
   rl_schedule [(now, Get n ip), (now, Rest n)] w =
     \<lparr>store = snd (check_rate_limit now w ip), reads = Map.empty,
      answers = [(n, fst (check_rate_limit now w ip))]\<rparr> \<and>
   (stored_count w ip \<le> 1000 \<and> (\<forall>c\<in>set cs. clock_ok c) \<longrightarrow>
      stored_count (store (rl_schedule (uninterrupted cs) w)) ip \<le> 1000)"
  using check_rate_limit_limited [of w now ip count]
        check_rate_limit_admit [of w now ip count]
        rl_call [of now n ip w]
        fold_uninterrupted_cap [of cs "\<lparr>store = w, reads = Map.empty, answers = []\<rparr>" ip]
  by (simp add: RATE_LIMIT_MAX_REQUESTS_def RATE_LIMIT_WINDOW_def rl_schedule_def)

theorem check_rate_limit_capped_witness:
  "check_rate_limit 5000 (counter_world 1000) ''10.0.0.1''
     = (Inr (True, 1000), counter_world 1000) \<and>
   check_rate_limit 5000 (counter_world 999) ''10.0.0.1''
     = (Inr (False, 1000),
        (counter_world 999)\<lparr>kv := (kv (counter_world 999))
            (''ratelimit:10.0.0.1'' \<mapsto> (RInt 1000, Some 65000))\<rparr>) \<and>
   stored_count (store (rl_schedule
       (uninterrupted [(5000, 5001, 1, ''10.0.0.1''), (5002, 5003, 2, ''10.0.0.1''),
                       (5004, 5004, 3, ''10.0.0.2'')])
       (counter_world 999))) ''10.0.0.1'' \<le> 1000"
proof -
  have r: "reachable (counter_world n)" for n by (simp add: counter_world_def)
  show ?thesis
    using check_rate_limit_capped [of "counter_world 1000" 5000 "''10.0.0.1''" 1000 1 "[]"]
          check_rate_limit_capped [of "counter_world 999" 5000 "''10.0.0.1''" 999 1
             "[(5000, 5001, 1, ''10.0.0.1''), (5002, 5003, 2, ''10.0.0.1''),
               (5004, 5004, 3, ''10.0.0.2'')]"]
    by (simp add: r counter_world_count counter_world_stored ratelimit_key_def
             del: rl_exec.simps)
qed

subsection \<open>verify_client\<close>

lemma key_distinct [simp]:
  "verified_key a \<noteq> ratelimit_key b" "ratelimit_key a \<noteq> verified_key b"
  "blocked_key a \<noteq> ratelimit_key b" "ratelimit_key a \<noteq> blocked_key b"
  "blocked_key a \<noteq> verified_key b" "verified_key a \<noteq> blocked_key b"
  by (simp_all add: verified_key_def ratelimit_key_def blocked_key_def)

lemma key_inj [simp]:
  "(verified_key a = verified_key b) = (a = b)" "(blocked_key a = blocked_key b) = (a = b)"
  by (simp_all add: verified_key_def blocked_key_def)

lemma verify_client_unreachable:
  "\<not> reachable w \<Longrightarrow> verify_client ev now w rq = (Inl ConnectionError, w)"
  by (simp add: verify_client_def kv_get_def)

lemma verify_client_cached:
  assumes "reachable w" "truthy (kv_lookup now w (verified_key (clientIP rq)))"
  shows "verify_client ev now w rq =
           (Inr \<lparr>verified = True, verification_type = ''cached''\<rparr>, w)"
  using assms by (simp add: verify_client_def kv_get_def)

lemma verify_client_limited:
  assumes "reachable w" "\<not> truthy (kv_lookup now w (verified_key (clientIP rq)))"
    "current_count now w (clientIP rq) = Some count" "RATE_LIMIT_MAX_REQUESTS \<le> count"
  shows "verify_client ev now w rq =
           (Inr \<lparr>verified = False, verification_type = ''rate_limited''\<rparr>, w)"
  using assms by (simp add: verify_client_def kv_get_def check_rate_limit_limited)

lemma verify_client_admitted:
  assumes "reachable w" "\<not> truthy (kv_lookup now w (verified_key (clientIP rq)))"
    "current_count now w (clientIP rq) = Some count" "count < RATE_LIMIT_MAX_REQUESTS"
  shows "verify_client ev now w rq =
     (let ip = clientIP rq;
          w2 = w\<lparr>kv := (kv w)(ratelimit_key ip \<mapsto>
                       (RInt (count + 1), Some (now + RATE_LIMIT_WINDOW * 1000))),
                 calls := calls w @ [ThreatIntelQuery ip]\<rparr>
      in if high_risk (threat_intel ev (calls w) ip) then
           (Inr \<lparr>verified = False, verification_type = ''threat_intel_blocked''\<rparr>,
            w2\<lparr>kv := (kv w2)(blocked_key ip \<mapsto> (RStr ''threat_intel'', Some (now + 3600 * 1000))),
               calls := calls w @ [ThreatIntelQuery ip, CloudflareBlock ip]\<rparr>)
         else if count + 1 > 100 then
           (Inr \<lparr>verified = False, verification_type = ''captcha_required''\<rparr>, w2)
         else if count + 1 > 50 then
           (Inr \<lparr>verified = False, verification_type = ''js_challenge''\<rparr>, w2)
         else
           (Inr \<lparr>verified = True, verification_type = ''cookie''\<rparr>,
            w2\<lparr>kv := (kv w2)(verified_key ip \<mapsto> (RStr ''cookie'', Some (now + 3600 * 1000)))\<rparr>))"
  using assms
  by (simp add: verify_client_def kv_get_def check_rate_limit_admit Let_def
                check_threat_intel_def add_to_cloudflare_blocklist_def kv_set_def LLONG_MAX_def)

lemma check_rate_limit_not_numeral:
  assumes "reachable w" "kv_lookup now w (ratelimit_key ip) = Some (RStr s)"
  shows "check_rate_limit now w ip =
           (if s = [] then
              (Inl ResponseError,
               w\<lparr>kv := (kv w)(ratelimit_key ip \<mapsto>
                        (RStr [], Some (now + RATE_LIMIT_WINDOW * 1000)))\<rparr>)
            else (Inl ValueError, w))"
  using assms
  by (simp add: check_rate_limit_def kv_get_def int_or_zero_def RATE_LIMIT_MAX_REQUESTS_def
                pipeline_incr_expire_def incr_cmd_def expire_cmd_def RATE_LIMIT_WINDOW_def)

lemma verify_client_not_numeral:
  assumes "reachable w" "\<not> truthy (kv_lookup now w (verified_key (clientIP rq)))"
    "kv_lookup now w (ratelimit_key (clientIP rq)) = Some (RStr s)"
  shows "verify_client ev now w rq =
           (if s = [] then
              (Inl ResponseError,
               w\<lparr>kv := (kv w)(ratelimit_key (clientIP rq) \<mapsto>
                        (RStr [], Some (now + RATE_LIMIT_WINDOW * 1000)))\<rparr>)
            else (Inl ValueError, w))"
  using assms
  by (simp add: verify_client_def kv_get_def check_rate_limit_not_numeral)

lemma not_blocked_keys [simp]:
  "\<not> prefix ''blocked:'' (verified_key ip)" "\<not> prefix ''blocked:'' (ratelimit_key ip)"
  by (simp_all add: verified_key_def ratelimit_key_def)

lemma kv_lookup_cong: "kv w1 k = kv w2 k \<Longrightarrow> kv_lookup now w1 k = kv_lookup now w2 k"
  by (simp add: kv_lookup_def)

lemma current_count_cong:
  "kv w1 (ratelimit_key ip) = kv w2 (ratelimit_key ip)
   \<Longrightarrow> current_count now w1 ip = current_count now w2 ip"
  by (simp add: current_count_def kv_lookup_cong [of w1 _ w2])

text \<open>
  C2. A request whose client IP has a live verified entry (one whose value is true in
  Python, as the \<open>cookie\<close> the program stores is) is answered verified with type
  \<open>cached\<close>, and the world is returned as it was: no counter is read or increased and no
  call goes to the threat-intelligence service or the firewall, whatever the counter and
  the threat score are.
\<close>

theorem verify_client_cached_first:
  assumes "reachable w" and "truthy (kv_lookup now w (verified_key (clientIP rq)))"
  shows "verify_client ev now w rq =
           (Inr \<lparr>verified = True, verification_type = ''cached''\<rparr>, w)"
  using assms by (rule verify_client_cached)

theorem verify_client_cached_first_witness:
  "verify_client (risk_env 99) 5000
     (registry_world [''verified:10.0.0.1'' \<mapsto> (RStr ''cookie'', Some 3600000),
                      ''ratelimit:10.0.0.1'' \<mapsto> (RInt 1000, Some 60000)]) client
   = (Inr \<lparr>verified = True, verification_type = ''cached''\<rparr>,
      registry_world [''verified:10.0.0.1'' \<mapsto> (RStr ''cookie'', Some 3600000),
                      ''ratelimit:10.0.0.1'' \<mapsto> (RInt 1000, Some 60000)])"
  by (rule verify_client_cached_first)
     (simp_all add: registry_world_def client_def verified_key_def kv_lookup_def live_def
        truthy_def)

text \<open>
  C3. A request that has no live verified entry, whose count is below the limit and whose
  threat-intelligence lookup succeeds: with a risk score above 70 the calls made are the
  lookup and then exactly one block request, the blocked entry of the IP is stored with
  reason \<open>threat_intel\<close> and an expiry of one hour, and the answer is unverified with type
  \<open>threat_intel_blocked\<close>; with a risk score of 70 or less the only call is the lookup,
  the blocked entry is left as it was and the answer is of another type.
\<close>

theorem verify_client_threat_intel_block:
  assumes "reachable w"
    and "\<not> truthy (kv_lookup now w (verified_key (clientIP rq)))"
    and "current_count now w (clientIP rq) = Some count" and "count < 1000"
    and "threat_intel ev (calls w) (clientIP rq) = Some ti"
  shows "(70 < risk_score ti \<longrightarrow>
            verify_client ev now w rq =
              (Inr \<lparr>verified = False, verification_type = ''threat_intel_blocked''\<rparr>,
               w\<lparr>kv := (kv w)
                     (ratelimit_key (clientIP rq) \<mapsto> (RInt (count + 1), Some (now + 60 * 1000)),
                      blocked_key (clientIP rq) \<mapsto> (RStr ''threat_intel'', Some (now + 3600 * 1000))),
                 calls := calls w @ [ThreatIntelQuery (clientIP rq), CloudflareBlock (clientIP rq)]\<rparr>)) \<and>
         (risk_score ti \<le> 70 \<longrightarrow>
            (\<exists>v w'. verify_client ev now w rq = (Inr v, w') \<and>
                    verification_type v \<noteq> ''threat_intel_blocked'' \<and>
                    calls w' = calls w @ [ThreatIntelQuery (clientIP rq)] \<and>
                    kv w' (blocked_key (clientIP rq)) = kv w (blocked_key (clientIP rq))))"
  using assms verify_client_admitted [of w now rq count ev]
  by (simp add: RATE_LIMIT_MAX_REQUESTS_def RATE_LIMIT_WINDOW_def Let_def high_risk_def)

lemma empty_registry_facts:
  "reachable (registry_world Map.empty)"
  "\<not> truthy (kv_lookup now (registry_world Map.empty) (verified_key (clientIP client)))"
  "current_count now (registry_world Map.empty) (clientIP client) = Some 0"
  "calls (registry_world Map.empty) = []"
  "kv (registry_world Map.empty) = Map.empty"
  by (simp_all add: registry_world_def kv_lookup_def truthy_def current_count_def)

theorem verify_client_threat_intel_block_witness:
  "verify_client (risk_env 85) 5000 (registry_world Map.empty) client =
     (Inr \<lparr>verified = False, verification_type = ''threat_intel_blocked''\<rparr>,
      (registry_world Map.empty)
        \<lparr>kv := [''ratelimit:10.0.0.1'' \<mapsto> (RInt 1, Some 65000),
                ''blocked:10.0.0.1'' \<mapsto> (RStr ''threat_intel'', Some 3605000)],
         calls := [ThreatIntelQuery ''10.0.0.1'', CloudflareBlock ''10.0.0.1'']\<rparr>) \<and>
   (\<exists>v w'. verify_client (risk_env 70) 5000 (registry_world Map.empty) client = (Inr v, w') \<and>
           verification_type v \<noteq> ''threat_intel_blocked'' \<and>
           calls w' = [ThreatIntelQuery ''10.0.0.1''] \<and>
           kv w' ''blocked:10.0.0.1'' = None)"
  using verify_client_threat_intel_block
          [of "registry_world Map.empty" 5000 client 0 "risk_env 85" "risky 85"]
        verify_client_threat_intel_block
          [of "registry_world Map.empty" 5000 client 0 "risk_env 70" "risky 70"]
  by (simp add: empty_registry_facts)
     (simp add: risk_env_def risky_def client_def ratelimit_key_def blocked_key_def)

lemma verify_client_noninterference:
  assumes R: "same_but_blocked w1 w2"
  shows "fst (verify_client ev now w1 rq) = fst (verify_client ev now w2 rq) \<and>
         same_but_blocked (snd (verify_client ev now w1 rq)) (snd (verify_client ev now w2 rq)) \<and>
         (\<forall>k. kv (snd (verify_client ev now w1 rq)) k = kv (snd (verify_client ev now w2 rq)) k \<or>
              (kv (snd (verify_client ev now w1 rq)) k = kv w1 k \<and>
               kv (snd (verify_client ev now w2 rq)) k = kv w2 k))"
proof -
  let ?ip = "clientIP rq"
  have re: "reachable w1 = reachable w2" and ca: "calls w1 = calls w2"
    using R by (simp_all add: same_but_blocked_def)
  have kv: "\<And>k. \<not> prefix ''blocked:'' k \<Longrightarrow> kv w1 k = kv w2 k"
    using R by (simp add: same_but_blocked_def)
  have v: "kv_lookup now w1 (verified_key ?ip) = kv_lookup now w2 (verified_key ?ip)"
    by (rule kv_lookup_cong) (simp add: kv)
  have rl: "kv_lookup now w1 (ratelimit_key ?ip) = kv_lookup now w2 (ratelimit_key ?ip)"
    by (rule kv_lookup_cong) (simp add: kv)
  have cc: "current_count now w1 ?ip = current_count now w2 ?ip"
    by (rule current_count_cong) (simp add: kv)
  show ?thesis
  proof (cases "reachable w1")
    case False
    then show ?thesis using R re by (simp add: verify_client_unreachable)
  next
    case r1: True
    then have r2: "reachable w2" using re by simp
    show ?thesis
    proof (cases "truthy (kv_lookup now w1 (verified_key ?ip))")
      case True
      then show ?thesis using R r1 r2 v by (simp add: verify_client_cached)
    next
      case nv1: False
      then have nv2: "\<not> truthy (kv_lookup now w2 (verified_key ?ip))" using v by simp
      show ?thesis
      proof (cases "current_count now w1 ?ip")
        case None
        then obtain s where s1: "kv_lookup now w1 (ratelimit_key ?ip) = Some (RStr s)"
          by (auto simp: current_count_def split: option.splits rval.splits)
        then have s2: "kv_lookup now w2 (ratelimit_key ?ip) = Some (RStr s)" using rl by simp
        show ?thesis
          using R
          by (simp add: verify_client_not_numeral [OF r1 nv1 s1]
                verify_client_not_numeral [OF r2 nv2 s2] same_but_blocked_def)
      next
        case (Some count)
        then have c2: "current_count now w2 ?ip = Some count" using cc by simp
        show ?thesis
        proof (cases "RATE_LIMIT_MAX_REQUESTS \<le> count")
          case True
          then show ?thesis
            using R
            by (simp add: verify_client_limited [OF r1 nv1 Some]
                  verify_client_limited [OF r2 nv2 c2])
        next
          case False
          then have lt: "count < RATE_LIMIT_MAX_REQUESTS" by simp
          show ?thesis
            using R ca
            by (simp add: verify_client_admitted [OF r1 nv1 Some lt]
                  verify_client_admitted [OF r2 nv2 c2 lt] Let_def same_but_blocked_def)
        qed
      qed
    qed
  qed
qed

text \<open>
  C10. \<open>verify_client\<close> never reads the blocked registry. On two stores that differ only
  in \<open>blocked:\<close> entries it gives the same answer, and the stores it leaves again differ
  only in \<open>blocked:\<close> entries, every key being either equal in both or untouched in both.
  So an IP without a live verified entry, with a count below 50 and no high threat score
  is marked verified and answered verified with type \<open>cookie\<close>, whatever its blocked
  entry holds, and that blocked entry stays.
\<close>

theorem verify_client_ignores_blocked:
  "(same_but_blocked w1 w2 \<longrightarrow>
      fst (verify_client ev now w1 rq) = fst (verify_client ev now w2 rq) \<and>
      same_but_blocked (snd (verify_client ev now w1 rq)) (snd (verify_client ev now w2 rq)) \<and>
      (\<forall>k. kv (snd (verify_client ev now w1 rq)) k = kv (snd (verify_client ev now w2 rq)) k \<or>
           (kv (snd (verify_client ev now w1 rq)) k = kv w1 k \<and>
            kv (snd (verify_client ev now w2 rq)) k = kv w2 k))) \<and>
   (reachable w \<and> \<not> truthy (kv_lookup now w (verified_key (clientIP rq))) \<and>
    current_count now w (clientIP rq) = Some count \<and> count < 50 \<and>
    \<not> high_risk (threat_intel ev (calls w) (clientIP rq)) \<longrightarrow>
      (\<exists>w'. verify_client ev now w rq =
               (Inr \<lparr>verified = True, verification_type = ''cookie''\<rparr>, w') \<and>
            kv_lookup now w' (verified_key (clientIP rq)) = Some (RStr ''cookie'') \<and>
            kv w' (blocked_key (clientIP rq)) = kv w (blocked_key (clientIP rq))))"
proof (rule conjI)
  show "same_but_blocked w1 w2 \<longrightarrow>
      fst (verify_client ev now w1 rq) = fst (verify_client ev now w2 rq) \<and>
      same_but_blocked (snd (verify_client ev now w1 rq)) (snd (verify_client ev now w2 rq)) \<and>
      (\<forall>k. kv (snd (verify_client ev now w1 rq)) k = kv (snd (verify_client ev now w2 rq)) k \<or>
           (kv (snd (verify_client ev now w1 rq)) k = kv w1 k \<and>
            kv (snd (verify_client ev now w2 rq)) k = kv w2 k))"
    by (rule impI) (rule verify_client_noninterference)
next
  show "reachable w \<and> \<not> truthy (kv_lookup now w (verified_key (clientIP rq))) \<and>
    current_count now w (clientIP rq) = Some count \<and> count < 50 \<and>
    \<not> high_risk (threat_intel ev (calls w) (clientIP rq)) \<longrightarrow>
      (\<exists>w'. verify_client ev now w rq =
               (Inr \<lparr>verified = True, verification_type = ''cookie''\<rparr>, w') \<and>
            kv_lookup now w' (verified_key (clientIP rq)) = Some (RStr ''cookie'') \<and>
            kv w' (blocked_key (clientIP rq)) = kv w (blocked_key (clientIP rq)))"
  proof (rule impI)
    assume a: "reachable w \<and> \<not> truthy (kv_lookup now w (verified_key (clientIP rq))) \<and>
      current_count now w (clientIP rq) = Some count \<and> count < 50 \<and>
      \<not> high_risk (threat_intel ev (calls w) (clientIP rq))"
    then have lt: "count < RATE_LIMIT_MAX_REQUESTS" by (simp add: RATE_LIMIT_MAX_REQUESTS_def)
    show "\<exists>w'. verify_client ev now w rq =
                 (Inr \<lparr>verified = True, verification_type = ''cookie''\<rparr>, w') \<and>
              kv_lookup now w' (verified_key (clientIP rq)) = Some (RStr ''cookie'') \<and>
              kv w' (blocked_key (clientIP rq)) = kv w (blocked_key (clientIP rq))"
      using a verify_client_admitted [of w now rq count ev] lt
      by (simp add: Let_def kv_lookup_def live_def)
  qed
qed

lemma blocked_world_facts:
  "reachable blocked_world"
  "\<not> truthy (kv_lookup now blocked_world (verified_key (clientIP client)))"
  "current_count now blocked_world (clientIP client) = Some 0"
  "kv_lookup 5000 blocked_world (blocked_key (clientIP client)) = Some (RStr ''threat_intel'')"
  "same_but_blocked blocked_world (registry_world Map.empty)"
  by (simp_all add: blocked_world_def registry_world_def kv_lookup_def truthy_def
        current_count_def client_def verified_key_def ratelimit_key_def blocked_key_def
        live_def same_but_blocked_def)

theorem verify_client_ignores_blocked_witness:
  "kv_lookup 5000 blocked_world (blocked_key (clientIP client)) = Some (RStr ''threat_intel'') \<and>
   fst (verify_client quiet_env 5000 blocked_world client)
     = fst (verify_client quiet_env 5000 (registry_world Map.empty) client) \<and>
   (\<exists>w'. verify_client quiet_env 5000 blocked_world client =
            (Inr \<lparr>verified = True, verification_type = ''cookie''\<rparr>, w') \<and>
          kv_lookup 5000 w' (verified_key (clientIP client)) = Some (RStr ''cookie''))"
  using verify_client_ignores_blocked
          [of blocked_world "registry_world Map.empty" quiet_env 5000 client blocked_world 0]
  by (simp add: blocked_world_facts) (simp add: quiet_env_def high_risk_def, blast)

subsection \<open>add_mitigation\<close>





subsection \<open>get_anomalies\<close>

lemma burst_values:
  "map snd burst_series = replicate 27 65 @ [1, 1, 129, 1, 193]"
  by (simp add: burst_series_def comp_def map_replicate_const)

lemma burst_length: "length burst_series = 32"
  by (simp add: burst_series_def)

lemma burst_window: "window 1700000000000 burst_series = burst_series"
  by (rule window_all) (auto simp: burst_series_def)

lemma burst_last: "snd (last burst_series) = 193"
  by (simp add: burst_series_def)

lemma burst_mean: "spec_mean (map snd burst_series) = 65"
  by (simp add: spec_mean_def burst_values sum_list_replicate)

lemma sqrt_1024: "sqrt 1024 = 32"
  using real_sqrt_abs [of 32] by simp

lemma burst_stddev: "spec_population_stddev (map snd burst_series) = 32"
proof -
  have "sum_list (map (\<lambda>x. (x - 65)\<^sup>2) (map snd burst_series)) = 32768"
    unfolding burst_values by (simp add: sum_list_replicate)
  then show ?thesis
    by (simp add: spec_population_stddev_def burst_mean burst_length sqrt_1024)
qed

lemma burst_in_range: "squares_in_range (map snd burst_series)"
proof -
  have "\<forall>x\<in>set (map snd burst_series). (x - 65)\<^sup>2 < POW_OVERFLOW"
    unfolding burst_values by (simp add: POW_OVERFLOW_def)
  then show ?thesis
    by (simp add: squares_in_range_def burst_mean list_ex_iff not_le)
qed

lemma burst_detect:
  assumes "reachable w" and "ts_lookup w m = Some burst_series"
    and "\<not> holds_sample w (m @ '':avg'') 1700000000000" and "\<not> holds_sample w (m @ '':std'') 1700000000000"
  shows "detect_anomalies 1700000000000 w m =
     (Inr (Some \<lparr>timestamp = 1700000000, metric = m, val = 193, zscore = 4,
                 is_anomaly = True, threshold = 3\<rparr>),
      put_sample (m @ '':std'') (1700000000000, 32) (put_sample (m @ '':avg'') (1700000000000, 65) w))"
  using assms detect_stage [of w m burst_series 1700000000000]
  by (simp add: MIN_DATA_POINTS_def burst_window burst_length burst_in_range burst_last
        burst_mean burst_stddev spec_zscore_def ZSCORE_THRESHOLD_def)

lemma sweep_world_facts:
  "reachable sweep_world" "kv sweep_world = Map.empty" "calls sweep_world = []"
  "ts_lookup sweep_world ''ddos:total_rps'' = None"
  "ts_lookup sweep_world ''ddos:response_time'' = None"
  "ts_lookup sweep_world ''ddos:error_rate'' = None"
  "ts_lookup sweep_world ''ddos:ip:10.0.0.1'' = Some burst_series"
  "ts_lookup sweep_world ''ddos:ip:2001:db8::1'' = Some burst_series"
  "ts_lookup sweep_world ''ddos:ip:10.0.0.1:avg'' = None"
  "ts_lookup sweep_world ''ddos:ip:10.0.0.1:std'' = None"
  "ts_lookup sweep_world ''ddos:ip:2001:db8::1:avg'' = None"
  "ts_lookup sweep_world ''ddos:ip:2001:db8::1:std'' = None"
  "scan_keys sweep_world ''ddos:path:'' = Inr []"
  "scan_keys sweep_world ''ddos:ip:'' = Inr [''ddos:ip:10.0.0.1'', ''ddos:ip:2001:db8::1'']"
  by (simp_all add: sweep_world_def ts_lookup_def scan_keys_def)

lemma sweep_keys:
  "\<not> substring_in '':avg'' ''ddos:ip:10.0.0.1''" "\<not> substring_in '':std'' ''ddos:ip:10.0.0.1''"
  "\<not> substring_in '':avg'' ''ddos:ip:2001:db8::1''"
  "\<not> substring_in '':std'' ''ddos:ip:2001:db8::1''"
  "last_segment ''ddos:ip:10.0.0.1'' = ''10.0.0.1''"
  "last_segment ''ddos:ip:2001:db8::1'' = ''1''"
  by (simp_all add: last_segment_def)

text \<open>
  C4 at a store that holds an anomalous series with the value 193 for the client 10.0.0.1
  and for the client 2001:db8::1. Both results are returned. For the IPv4 client the
  firewall is called and the registry written under its address. For the IPv6 client the
  address taken from the key is what follows the last colon: the firewall is called for
  \<open>1\<close>, the registry entry is \<open>blocked:1\<close>, and nothing blocks 2001:db8::1.
\<close>

theorem get_anomalies_blocks_last_segment:
  "fst (get_anomalies (risk_env 0) 1700000000000 sweep_world) =
     Inr [\<lparr>timestamp = 1700000000, metric = ''ddos:ip:10.0.0.1'', val = 193, zscore = 4,
           is_anomaly = True, threshold = 3\<rparr>,
          \<lparr>timestamp = 1700000000, metric = ''ddos:ip:2001:db8::1'', val = 193, zscore = 4,
           is_anomaly = True, threshold = 3\<rparr>] \<and>
   calls (snd (get_anomalies (risk_env 0) 1700000000000 sweep_world)) =
     [CloudflareBlock ''10.0.0.1'', CloudflareBlock ''1''] \<and>
   kv (snd (get_anomalies (risk_env 0) 1700000000000 sweep_world)) =
     [''blocked:10.0.0.1'' \<mapsto> (RStr ''auto_anomaly'', Some 1700003600000),
      ''blocked:1'' \<mapsto> (RStr ''auto_anomaly'', Some 1700003600000)] \<and>
   kv (snd (get_anomalies (risk_env 0) 1700000000000 sweep_world)) ''blocked:2001:db8::1'' = None"
proof -
  let ?k1 = "''ddos:ip:10.0.0.1''" and ?k2 = "''ddos:ip:2001:db8::1''"
  let ?r1 = "\<lparr>timestamp = 1700000000, metric = ?k1, val = 193, zscore = 4,
              is_anomaly = True, threshold = 3\<rparr>"
  let ?r2 = "\<lparr>timestamp = 1700000000, metric = ?k2, val = 193, zscore = 4,
              is_anomaly = True, threshold = 3\<rparr>"
  define w1 where "w1 = put_sample (?k1 @ '':std'') (1700000000000, 32) (put_sample (?k1 @ '':avg'') (1700000000000, 65) sweep_world)"
  define w2 where "w2 = put_sample (?k2 @ '':std'') (1700000000000, 32) (put_sample (?k2 @ '':avg'') (1700000000000, 65) w1)"
  have g: "check_global 1700000000000 sweep_world ''ddos:total_rps'' [] = (Inr [], sweep_world)"
    "check_global 1700000000000 sweep_world ''ddos:response_time'' [] = (Inr [], sweep_world)"
    "check_global 1700000000000 sweep_world ''ddos:error_rate'' [] = (Inr [], sweep_world)"
    by (simp_all add: check_global_def detect_missing sweep_world_facts)
  have d1: "detect_anomalies 1700000000000 sweep_world ?k1 = (Inr (Some ?r1), w1)"
    unfolding w1_def
    by (rule burst_detect) (simp_all add: sweep_world_facts holds_sample_def samples_of_def)
  have w1: "reachable w1" "ts_lookup w1 ?k2 = Some burst_series"
    "\<not> holds_sample w1 (?k2 @ '':avg'') 1700000000000" "\<not> holds_sample w1 (?k2 @ '':std'') 1700000000000"
    by (simp_all add: w1_def ts_lookup_put_sample sweep_world_facts holds_sample_def
          samples_of_def)
  have d2: "detect_anomalies 1700000000000 w1 ?k2 = (Inr (Some ?r2), w2)"
    unfolding w2_def using w1 by (rule burst_detect)
  have l: "scan_loop 1700000000000 last_segment sweep_world [?k1, ?k2] ([], []) =
             (Inr ([?r1, ?r2], [(''10.0.0.1'', 193), (''1'', 193)]), w2)"
    by (simp add: sweep_keys d1 d2)
  have p: "scan_loop 1700000000000 (\<lambda>key. key) sweep_world [] ([], []) = (Inr ([], []), sweep_world)"
    by simp
  have w2: "reachable w2" "kv w2 = Map.empty" "calls w2 = []"
    by (simp_all add: w2_def w1_def sweep_world_facts)
  have b: "auto_block (risk_env 0) 1700000000000 w2 [(''10.0.0.1'', 193), (''1'', 193)] =
             (Inr (),
              w2\<lparr>calls := [CloudflareBlock ''10.0.0.1'', CloudflareBlock ''1''],
                 kv := [''blocked:10.0.0.1'' \<mapsto> (RStr ''auto_anomaly'', Some 1700003600000),
                        ''blocked:1'' \<mapsto> (RStr ''auto_anomaly'', Some 1700003600000)]\<rparr>)"
    by (simp add: add_to_cloudflare_blocklist_def kv_set_def LLONG_MAX_def blocked_key_def w2)
  have "get_anomalies (risk_env 0) 1700000000000 sweep_world =
          (Inr [?r1, ?r2],
           w2\<lparr>calls := [CloudflareBlock ''10.0.0.1'', CloudflareBlock ''1''],
              kv := [''blocked:10.0.0.1'' \<mapsto> (RStr ''auto_anomaly'', Some 1700003600000),
                     ''blocked:1'' \<mapsto> (RStr ''auto_anomaly'', Some 1700003600000)]\<rparr>)"
    by (simp add: get_anomalies_def g sweep_world_facts p l b
          del: scan_loop.simps auto_block.simps)
  then show ?thesis by simp
qed

end
